theory Spec2Isabelle
  imports Main
begin

section \<open>Attribute values of the plugin framework\<close>

text \<open>
  The provider exchanges values with the infrastructure tool through the plugin
  framework's attribute types. A \<open>types.String\<close> is null, unknown or a known string;
  a \<open>types.Map\<close> and a \<open>types.List\<close> are null, unknown or known collections of
  attribute values together with their element type. The zero value of the Go structs
  (\<open>types.Map{}\<close>, as in \<open>&DefaultIngress{}\<close>) is a null value whose element type is
  the nil interface: that is \<open>MapNull None\<close>, while \<open>types.MapNull(types.StringType)\<close>
  is \<open>MapNull (Some StringType)\<close>. With this representation \<open>reflect.DeepEqual\<close> on the
  Go values is equality of the HOL values (the elements of a known map or list are never
  the nil map or slice in the values this program builds or decodes).
\<close>

datatype attr_type = StringType | Int64Type | BoolType

datatype tf_string = StringNull | StringUnknown | StringValue string

datatype attr_value = AttrString tf_string | AttrInt64 int | AttrBool bool

fun attr_type_of :: "attr_value \<Rightarrow> attr_type" where
  "attr_type_of (AttrString _) = StringType"
| "attr_type_of (AttrInt64 _) = Int64Type"
| "attr_type_of (AttrBool _) = BoolType"

datatype tf_map =
    MapNull "attr_type option"
  | MapUnknown "attr_type option"
  | MapKnown attr_type "string \<rightharpoonup> attr_value"

datatype tf_list =
    ListNull "attr_type option"
  | ListUnknown "attr_type option"
  | ListKnown attr_type "attr_value list"

text \<open>Native Go collections: \<open>None\<close> is the nil map or slice, \<open>Some\<close> a non-nil one.\<close>

type_synonym native_map = "(string \<rightharpoonup> string) option"
type_synonym native_list = "string list option"

fun String_IsNull :: "tf_string \<Rightarrow> bool" where
  "String_IsNull StringNull = True"
| "String_IsNull _ = False"

fun String_IsUnknown :: "tf_string \<Rightarrow> bool" where
  "String_IsUnknown StringUnknown = True"
| "String_IsUnknown _ = False"

text \<open>\<open>ValueString\<close> of a null or unknown string is the empty string.\<close>

fun ValueString :: "tf_string \<Rightarrow> string" where
  "ValueString (StringValue s) = s"
| "ValueString _ = []"

fun Map_IsNull :: "tf_map \<Rightarrow> bool" where
  "Map_IsNull (MapNull _) = True"
| "Map_IsNull _ = False"

fun Map_IsUnknown :: "tf_map \<Rightarrow> bool" where
  "Map_IsUnknown (MapUnknown _) = True"
| "Map_IsUnknown _ = False"

fun List_IsNull :: "tf_list \<Rightarrow> bool" where
  "List_IsNull (ListNull _) = True"
| "List_IsNull _ = False"

fun List_IsUnknown :: "tf_list \<Rightarrow> bool" where
  "List_IsUnknown (ListUnknown _) = True"
| "List_IsUnknown _ = False"

subsection \<open>Diagnostics\<close>

text \<open>A diagnostic carries a summary and a detail; \<open>Errors\<close> keeps the error ones.\<close>

datatype diagnostic =
    ErrorDiagnostic string string
  | WarningDiagnostic string string

fun is_error_diagnostic :: "diagnostic \<Rightarrow> bool" where
  "is_error_diagnostic (ErrorDiagnostic _ _) = True"
| "is_error_diagnostic (WarningDiagnostic _ _) = False"

fun Detail :: "diagnostic \<Rightarrow> string" where
  "Detail (ErrorDiagnostic _ d) = d"
| "Detail (WarningDiagnostic _ d) = d"

definition Errors :: "diagnostic list \<Rightarrow> diagnostic list" where
  "Errors ds = filter is_error_diagnostic ds"

definition HasError :: "diagnostic list \<Rightarrow> bool" where
  "HasError ds = (Errors ds \<noteq> [])"

subsection \<open>Framework constructors and element conversion\<close>

text \<open>
  \<open>types.MapValue\<close> and \<open>types.ListValue\<close> of the framework build a known collection
  when every element has the declared element type; otherwise they report an error
  diagnostic and hand back an unknown value. The text of the framework's detail
  message, which goes on to name the offending element, is abbreviated.
\<close>

definition invalid_element_detail :: string where
  "invalid_element_detail = ''While creating a value, an invalid element was detected.''"

definition MapValue :: "attr_type \<Rightarrow> (string \<rightharpoonup> attr_value) \<Rightarrow> tf_map \<times> diagnostic list" where
  "MapValue elementType elements =
     (if attr_type_of ` ran elements \<subseteq> {elementType}
      then (MapKnown elementType elements, [])
      else (MapUnknown (Some elementType),
            [ErrorDiagnostic ''Invalid Map Element Type'' invalid_element_detail]))"

definition ListValue :: "attr_type \<Rightarrow> attr_value list \<Rightarrow> tf_list \<times> diagnostic list" where
  "ListValue elementType elements =
     (if attr_type_of ` set elements \<subseteq> {elementType}
      then (ListKnown elementType elements, [])
      else (ListUnknown (Some elementType),
            [ErrorDiagnostic ''Invalid List Element Type'' invalid_element_detail]))"

text \<open>
  \<open>ElementsAs(ctx, &result, false)\<close> into a Go \<open>map[string]string\<close> or \<open>[]string\<close>:
  an element converts only when it is a known string; a null or unknown element, or one
  of another type, is a conversion error (unhandled values are not allowed), and so is a
  null or unknown collection. On success the target is a fresh non-nil collection.

  The detail of the error diagnostic depends on the cause. The model keeps the sentence
  of the framework's message that names the cause and leaves out its lead-in and the
  lines that give the path and the types. The conversion stops at the first element
  that fails: for a list that is the first in order. For a map it is the first that the
  iteration over the Go map meets, which the language leaves open; when elements of a
  map fail for different causes the model reports the first cause in the order of
  \<open>failure_precedence\<close>.
\<close>

fun as_go_string :: "attr_value \<Rightarrow> string option" where
  "as_go_string (AttrString (StringValue s)) = Some s"
| "as_go_string _ = None"

datatype conversion_cause = IncompatibleType | UnknownValue | NullValue

fun element_failure :: "attr_value \<Rightarrow> conversion_cause option" where
  "element_failure (AttrString (StringValue s)) = None"
| "element_failure (AttrString StringUnknown) = Some UnknownValue"
| "element_failure (AttrString StringNull) = Some NullValue"
| "element_failure (AttrInt64 _) = Some IncompatibleType"
| "element_failure (AttrBool _) = Some IncompatibleType"

fun conversion_detail :: "conversion_cause \<Rightarrow> string" where
  "conversion_detail IncompatibleType =
     ''An unexpected error was encountered trying to convert the value into string.''"
| "conversion_detail UnknownValue =
     ''Received unknown value, however the target type cannot handle unknown values.''"
| "conversion_detail NullValue =
     ''Received null value, however the target type cannot handle null values.''"

definition value_conversion_error :: "conversion_cause \<Rightarrow> diagnostic" where
  "value_conversion_error cause =
     ErrorDiagnostic ''Value Conversion Error'' (conversion_detail cause)"

definition failure_precedence :: "conversion_cause list" where
  "failure_precedence = [IncompatibleType, UnknownValue, NullValue]"

definition map_failure :: "(string \<rightharpoonup> attr_value) \<Rightarrow> conversion_cause option" where
  "map_failure elements =
     find (\<lambda>cause. Some cause \<in> element_failure ` ran elements) failure_precedence"

fun first_failure :: "attr_value list \<Rightarrow> conversion_cause option" where
  "first_failure [] = None"
| "first_failure (v # vs) =
     (case element_failure v of Some cause \<Rightarrow> Some cause | None \<Rightarrow> first_failure vs)"

fun Map_ElementsAs :: "tf_map \<Rightarrow> diagnostic list \<times> (string \<rightharpoonup> string)" where
  "Map_ElementsAs (MapKnown t elements) =
     (case map_failure elements of
        Some cause \<Rightarrow> ([value_conversion_error cause], Map.empty)
      | None \<Rightarrow> ([], \<lambda>k. Option.bind (elements k) as_go_string))"
| "Map_ElementsAs (MapUnknown _) = ([value_conversion_error UnknownValue], Map.empty)"
| "Map_ElementsAs (MapNull _) = ([value_conversion_error NullValue], Map.empty)"

fun List_ElementsAs :: "tf_list \<Rightarrow> diagnostic list \<times> string list" where
  "List_ElementsAs (ListKnown t elements) =
     (case first_failure elements of
        Some cause \<Rightarrow> ([value_conversion_error cause], [])
      | None \<Rightarrow> ([], List.map_filter as_go_string elements))"
| "List_ElementsAs (ListUnknown _) = ([value_conversion_error UnknownValue], [])"
| "List_ElementsAs (ListNull _) = ([value_conversion_error NullValue], [])"

section \<open>Conversions between attribute values and native collections\<close>

text \<open>
  Errors of the provider. The Go code builds them with \<open>fmt.Errorf\<close>; each constructor
  stands for one message:
  \<^item> \<open>ConversionError d\<close>: "error converting to map object d";
  \<^item> \<open>VersionCheckError v e\<close>: "version 'v' is not supported: e";
  \<^item> \<open>UnsupportedVersionError v m\<close>: "version 'v' is not supported with default ingress,
    minimum supported version is m";
  \<^item> \<open>CantBeSetOnCreation\<close>: "default_ingress params: cluster_routes_hostname and
    cluster_routes_tls_secret_ref can't be set on cluster creation";
  \<^item> \<open>MustBeSetTogether\<close>: "default_ingress params: cluster_routes_hostname and
    cluster_routes_tls_secret_ref must be set together";
  \<^item> \<open>RemoteError e\<close>: an error returned by the remote API client;
  \<^item> \<open>NilPointerPanic\<close>: a nil pointer dereference, which aborts the operation.
\<close>

datatype error =
    ConversionError string
  | VersionCheckError string string
  | UnsupportedVersionError string string
  | CantBeSetOnCreation
  | MustBeSetTogether
  | RemoteError string
  | NilPointerPanic

definition OptionalMap :: "tf_map \<Rightarrow> native_map \<times> error option" where
  "OptionalMap tfVal =
     (if Map_IsNull tfVal \<or> Map_IsUnknown tfVal then (None, None)
      else let (d, result) = Map_ElementsAs tfVal in
        if HasError d then (None, Some (ConversionError (Detail (hd (Errors d)))))
        else (Some result, None))"

definition StringListToArray :: "tf_list \<Rightarrow> native_list \<times> error option" where
  "StringListToArray tfVal =
     (if List_IsNull tfVal \<or> List_IsUnknown tfVal then (None, None)
      else let (d, result) = List_ElementsAs tfVal in
        if HasError d then (None, Some (ConversionError (Detail (hd (Errors d)))))
        else (Some result, None))"

text \<open>
  \<open>ConvertStringMapToMapType\<close> and \<open>StringArrayToList\<close> wrap every native string in a
  known string value and call the framework constructor. When the constructor's
  diagnostics hold an error the code formats an error with \<open>fmt.Errorf\<close> and drops it:
  both branches return the constructed value and a nil error. The constructor is a
  parameter of the \<open>_via\<close> form so that this handling can be stated for any outcome of
  the call; the functions of the source are its instances at the framework's
  constructors. Ranging over a nil map or slice visits no element.
\<close>

definition string_elements :: "native_map \<Rightarrow> (string \<rightharpoonup> attr_value)" where
  "string_elements stringMap =
     (case stringMap of
        None \<Rightarrow> Map.empty
      | Some m \<Rightarrow> (\<lambda>k. map_option (\<lambda>v. AttrString (StringValue v)) (m k)))"

definition ConvertStringMapToMapType_via ::
  "(attr_type \<Rightarrow> (string \<rightharpoonup> attr_value) \<Rightarrow> tf_map \<times> diagnostic list) \<Rightarrow>
   native_map \<Rightarrow> tf_map \<times> error option" where
  "ConvertStringMapToMapType_via mapValueFn stringMap =
     (let elements = string_elements stringMap;
          (mapValue, diags) = mapValueFn StringType elements
      in if diags \<noteq> [] \<and> HasError diags then (mapValue, None) else (mapValue, None))"

definition ConvertStringMapToMapType :: "native_map \<Rightarrow> tf_map \<times> error option" where
  "ConvertStringMapToMapType stringMap = ConvertStringMapToMapType_via MapValue stringMap"

definition list_elements :: "native_list \<Rightarrow> attr_value list" where
  "list_elements stringList =
     (case stringList of
        None \<Rightarrow> []
      | Some l \<Rightarrow> map (\<lambda>e. AttrString (StringValue e)) l)"

definition StringArrayToList_via ::
  "(attr_type \<Rightarrow> attr_value list \<Rightarrow> tf_list \<times> diagnostic list) \<Rightarrow>
   native_list \<Rightarrow> tf_list \<times> error option" where
  "StringArrayToList_via listValueFn stringList =
     (let elements = list_elements stringList;
          (listValue, diags) = listValueFn StringType elements
      in if diags \<noteq> [] \<and> HasError diags then (listValue, None) else (listValue, None))"

definition StringArrayToList :: "native_list \<Rightarrow> tf_list \<times> error option" where
  "StringArrayToList stringList = StringArrayToList_via ListValue stringList"

subsection \<open>Helpers of the common package that are not among the source files\<close>

text \<open>
  Modelled from the spec: \<open>common.IsStringAttributeEmpty\<close> is not among the source
  files. A string attribute is empty when it is absent (null), when its presence is
  unknown, or when it is the empty string; otherwise it is set.
\<close>

fun IsStringAttributeEmpty :: "tf_string \<Rightarrow> bool" where
  "IsStringAttributeEmpty (StringValue s) = (s = [])"
| "IsStringAttributeEmpty _ = True"

text \<open>
  Modelled from the spec: \<open>common.OptionalList\<close> is not among the source files. It is the
  list conversion of the attribute value bridge (\<open>toNativeList\<close>): a null or unknown list
  gives nil, a known list the slice of its strings, a failing element a conversion error.
\<close>

definition OptionalList :: "tf_list \<Rightarrow> native_list \<times> error option" where
  "OptionalList tfVal = StringListToArray tfVal"

text \<open>
  Modelled from the spec: \<open>common.IsGreaterThanOrEqual\<close> is not among the source files.
  Each operand is parsed as \<open>major.minor.patch\<close> with an optional pre-release suffix after
  the first \<open>-\<close>; an operand that does not parse is an error. The order is by major, minor
  and patch, then by pre-release, where a version without a suffix is above the same
  version with one. The spec does not order two suffixes; here two numeric suffixes
  compare as numbers, a numeric suffix is below any other, and two others compare by
  character code.
\<close>

definition digit_of :: "char \<Rightarrow> nat option" where
  "digit_of c = map_of (zip ''0123456789'' [0, 1, 2, 3, 4, 5, 6, 7, 8, 9]) c"

fun parse_digits :: "nat \<Rightarrow> string \<Rightarrow> nat option" where
  "parse_digits acc [] = Some acc"
| "parse_digits acc (c # cs) =
     (case digit_of c of None \<Rightarrow> None | Some d \<Rightarrow> parse_digits (10 * acc + d) cs)"

definition parse_number :: "string \<Rightarrow> nat option" where
  "parse_number s = (if s = [] then None else parse_digits 0 s)"

fun split_on :: "char \<Rightarrow> string \<Rightarrow> string list" where
  "split_on d [] = [[]]"
| "split_on d (c # cs) =
     (if c = d then [] # split_on d cs
      else (case split_on d cs of [] \<Rightarrow> [[c]] | w # ws \<Rightarrow> (c # w) # ws))"

type_synonym version = "nat \<times> nat \<times> nat \<times> string option"

definition parse_version :: "string \<Rightarrow> version option" where
  "parse_version s =
     (let core = takeWhile (\<lambda>c. c \<noteq> CHR ''-'') s;
          pre = (case dropWhile (\<lambda>c. c \<noteq> CHR ''-'') s of [] \<Rightarrow> None | _ # p \<Rightarrow> Some p)
      in case map parse_number (split_on (CHR ''.'') core) of
           [Some major, Some minor, Some patch] \<Rightarrow> Some (major, minor, patch, pre)
         | _ \<Rightarrow> None)"

fun chars_ge :: "string \<Rightarrow> string \<Rightarrow> bool" where
  "chars_ge _ [] = True"
| "chars_ge [] (_ # _) = False"
| "chars_ge (x # xs) (y # ys) =
     (if x = y then chars_ge xs ys else (of_char y :: nat) < of_char x)"

fun prerelease_ge :: "string option \<Rightarrow> string option \<Rightarrow> bool" where
  "prerelease_ge None _ = True"
| "prerelease_ge (Some _) None = False"
| "prerelease_ge (Some a) (Some b) =
     (case (parse_number a, parse_number b) of
        (Some m, Some n) \<Rightarrow> n \<le> m
      | (Some _, None) \<Rightarrow> False
      | (None, Some _) \<Rightarrow> True
      | (None, None) \<Rightarrow> chars_ge a b)"

fun version_ge :: "version \<Rightarrow> version \<Rightarrow> bool" where
  "version_ge (major1, minor1, patch1, pre1) (major2, minor2, patch2, pre2) =
     (if major1 \<noteq> major2 then major2 < major1
      else if minor1 \<noteq> minor2 then minor2 < minor1
      else if patch1 \<noteq> patch2 then patch2 < patch1
      else prerelease_ge pre1 pre2)"

definition IsGreaterThanOrEqual :: "string \<Rightarrow> string \<Rightarrow> string + bool" where
  "IsGreaterThanOrEqual version1 version2 =
     (case parse_version version1 of
        None \<Rightarrow> Inl (''Malformed version: '' @ version1)
      | Some v1 \<Rightarrow>
          (case parse_version version2 of
             None \<Rightarrow> Inl (''Malformed version: '' @ version2)
           | Some v2 \<Rightarrow> Inr (version_ge v1 v2)))"

section \<open>The default ingress of a cluster\<close>

text \<open>
  \<open>DefaultIngress\<close> is the declared or stored state of the sub-resource; a pointer to it
  is a \<open>DefaultIngress option\<close>, \<open>None\<close> being nil. The field \<open>Id\<close> of the source is \<open>Id'\<close>.
\<close>

record DefaultIngress =
  RouteSelectors :: tf_map
  ExcludedNamespaces :: tf_list
  WildcardPolicy :: tf_string
  NamespaceOwnershipPolicy :: tf_string
  Id' :: tf_string
  ClusterRoutesHostname :: tf_string
  ClusterRoutesTlsSecretRef :: tf_string

text \<open>The zero value \<open>DefaultIngress{}\<close>: every field is the zero value of its type.\<close>

definition zero_DefaultIngress :: DefaultIngress where
  "zero_DefaultIngress =
     \<lparr>RouteSelectors = MapNull None, ExcludedNamespaces = ListNull None,
      WildcardPolicy = StringNull, NamespaceOwnershipPolicy = StringNull,
      Id' = StringNull, ClusterRoutesHostname = StringNull,
      ClusterRoutesTlsSecretRef = StringNull\<rparr>"

text \<open>
  An ingress object of the remote API (\<open>cmv1.Ingress\<close>), as listed by the server or as
  built for a request body. Every field is present (\<open>Some\<close>) or absent; the accessors
  \<open>ID\<close> and \<open>Default\<close> give the zero value for an absent field, the \<open>Get...\<close> accessors are
  the fields themselves. A builder (\<open>cmv1.IngressBuilder\<close>) holds the same fields, and
  \<open>Build\<close> copies them; a nil builder is \<open>None\<close>.
\<close>

record Ingress =
  ingress_id :: "string option"
  ingress_default :: "bool option"
  route_selectors :: "(string \<rightharpoonup> string) option"
  excluded_namespaces :: "string list option"
  route_wildcard_policy :: "string option"
  route_namespace_ownership_policy :: "string option"
  cluster_routes_hostname :: "string option"
  cluster_routes_tls_secret_ref :: "string option"

definition NewIngress :: Ingress where
  "NewIngress =
     \<lparr>ingress_id = None, ingress_default = None, route_selectors = None,
      excluded_namespaces = None, route_wildcard_policy = None,
      route_namespace_ownership_policy = None, cluster_routes_hostname = None,
      cluster_routes_tls_secret_ref = None\<rparr>"

definition ID :: "Ingress \<Rightarrow> string" where
  "ID ingress = (case ingress_id ingress of None \<Rightarrow> [] | Some i \<Rightarrow> i)"

definition Default :: "Ingress \<Rightarrow> bool" where
  "Default ingress = (ingress_default ingress = Some True)"

text \<open>
  The remote client. \<open>list_ingresses c\<close> is the outcome of listing the ingresses of
  cluster \<open>c\<close>, \<open>update_ingress c i body\<close> the outcome of updating ingress \<open>i\<close> of cluster
  \<open>c\<close> with \<open>body\<close>. Every function that talks to the remote system returns the calls it
  issued, in order.
\<close>

record ClustersClient =
  list_ingresses :: "string \<Rightarrow> error + Ingress list"
  update_ingress :: "string \<Rightarrow> string \<Rightarrow> Ingress \<Rightarrow> error option"

record IngressesClient =
  clusters :: ClustersClient
  cluster :: string

definition Ingresses :: "ClustersClient \<Rightarrow> string \<Rightarrow> IngressesClient" where
  "Ingresses clusterCollection clusterId = \<lparr>clusters = clusterCollection, cluster = clusterId\<rparr>"

datatype remote_call =
    ListIngresses string
  | UpdateIngressCall string string Ingress


subsection \<open>Reading the default ingress\<close>

text \<open>
  The body of the loop of \<open>PopulateDefaultIngress\<close> for the entry marked default. The
  identifier and the four string fields are always assigned (null when the remote field
  is absent); route selectors and excluded namespaces are assigned only when the remote
  field is present. An error of a conversion returns a nil state with the error.
\<close>

definition populate_from_ingress ::
  "DefaultIngress \<Rightarrow> Ingress \<Rightarrow> DefaultIngress option \<times> error option" where
  "populate_from_ingress state ingress =
     (let state1 = state\<lparr>Id' := StringValue (ID ingress)\<rparr>;
          (state2, err1) =
            (case route_selectors ingress of
               None \<Rightarrow> (state1, None)
             | Some routeSelectors \<Rightarrow>
                 (let (m, err) = ConvertStringMapToMapType (Some routeSelectors)
                  in (state1\<lparr>RouteSelectors := m\<rparr>, err)))
      in if err1 \<noteq> None then (None, err1)
      else
        let (state3, err2) =
              (case excluded_namespaces ingress of
                 None \<Rightarrow> (state2, None)
               | Some excludedNamespaces \<Rightarrow>
                   (let (l, err) = StringArrayToList (Some excludedNamespaces)
                    in (state2\<lparr>ExcludedNamespaces := l\<rparr>, err)))
        in if err2 \<noteq> None then (None, err2)
        else
          let state4 = state3\<lparr>WildcardPolicy :=
                (case route_wildcard_policy ingress of
                   Some wp \<Rightarrow> StringValue wp | None \<Rightarrow> StringNull)\<rparr>;
              state5 = state4\<lparr>NamespaceOwnershipPolicy :=
                (case route_namespace_ownership_policy ingress of
                   Some rnmop \<Rightarrow> StringValue rnmop | None \<Rightarrow> StringNull)\<rparr>;
              state6 = state5\<lparr>ClusterRoutesHostname :=
                (case cluster_routes_hostname ingress of
                   Some hostname \<Rightarrow> StringValue hostname | None \<Rightarrow> StringNull)\<rparr>;
              state7 = state6\<lparr>ClusterRoutesTlsSecretRef :=
                (case cluster_routes_tls_secret_ref ingress of
                   Some tls \<Rightarrow> StringValue tls | None \<Rightarrow> StringNull)\<rparr>
          in (Some state7, None))"

text \<open>The loop over the listed ingresses: the first entry marked default is used.\<close>

fun populate_loop :: "DefaultIngress \<Rightarrow> Ingress list \<Rightarrow> DefaultIngress option \<times> error option" where
  "populate_loop state [] = (Some state, None)"
| "populate_loop state (ingress # rest) =
     (if Default ingress then populate_from_ingress state ingress
      else populate_loop state rest)"

definition PopulateDefaultIngress ::
  "DefaultIngress option \<Rightarrow> IngressesClient \<Rightarrow>
   remote_call list \<times> DefaultIngress option \<times> error option" where
  "PopulateDefaultIngress state client =
     (case state of
        None \<Rightarrow> ([], None, None)
      | Some st \<Rightarrow>
          (case list_ingresses (clusters client) (cluster client) of
             Inl err \<Rightarrow> ([ListIngresses (cluster client)], None, Some err)
           | Inr items \<Rightarrow>
               (let (state', err) = populate_loop st items
                in ([ListIngresses (cluster client)], state', err))))"

subsection \<open>Building the request body\<close>

text \<open>
  \<open>getDefaultIngressBuilder\<close> returns a nil builder when a conversion fails. Route
  selectors and excluded namespaces are always set on the builder (a nil collection is
  replaced by an empty one), the two policies when they are not empty.
\<close>

definition getDefaultIngressBuilder :: "DefaultIngress \<Rightarrow> Ingress option" where
  "getDefaultIngressBuilder state =
     (let ingressBuilder = NewIngress;
          (routeSelectors, err1) = OptionalMap (RouteSelectors state)
      in if err1 \<noteq> None then None
      else
        let routeSelectors' = (case routeSelectors of None \<Rightarrow> Map.empty | Some m \<Rightarrow> m);
            ingressBuilder1 = ingressBuilder\<lparr>route_selectors := Some routeSelectors'\<rparr>;
            (excludedNamespace, err2) = OptionalList (ExcludedNamespaces state)
        in if err2 \<noteq> None then None
        else
          let excludedNamespace' = (case excludedNamespace of None \<Rightarrow> [] | Some l \<Rightarrow> l);
              ingressBuilder2 = ingressBuilder1\<lparr>excluded_namespaces := Some excludedNamespace'\<rparr>;
              ingressBuilder3 =
                (if \<not> IsStringAttributeEmpty (WildcardPolicy state)
                 then ingressBuilder2\<lparr>route_wildcard_policy :=
                        Some (ValueString (WildcardPolicy state))\<rparr>
                 else ingressBuilder2);
              ingressBuilder4 =
                (if \<not> IsStringAttributeEmpty (NamespaceOwnershipPolicy state)
                 then ingressBuilder3\<lparr>route_namespace_ownership_policy :=
                        Some (ValueString (NamespaceOwnershipPolicy state))\<rparr>
                 else ingressBuilder3)
          in Some ingressBuilder4)"

subsection \<open>Validation\<close>

text \<open>
  The rules of \<open>ValidateDefaultIngress\<close> in the order of the source: a nil state is
  valid; the version must parse and be at least \<open>lowestDefaultIngressVer\<close>; hostname and
  TLS secret reference cannot be set while the identifier is empty; and the two are set
  together or not at all. The calls that log the message before it is returned are left
  out.
\<close>

definition lowestDefaultIngressVer :: string where
  "lowestDefaultIngressVer = ''4.14.0-0''"

definition ValidateDefaultIngress :: "DefaultIngress option \<Rightarrow> string \<Rightarrow> error option" where
  "ValidateDefaultIngress state version =
     (case state of
        None \<Rightarrow> None
      | Some ingress \<Rightarrow>
          (case IsGreaterThanOrEqual version lowestDefaultIngressVer of
             Inl err \<Rightarrow> Some (VersionCheckError version err)
           | Inr greater' \<Rightarrow>
               if \<not> greater' then Some (UnsupportedVersionError version lowestDefaultIngressVer)
               else if IsStringAttributeEmpty (Id' ingress) \<and>
                       (\<not> IsStringAttributeEmpty (ClusterRoutesHostname ingress) \<or>
                        \<not> IsStringAttributeEmpty (ClusterRoutesTlsSecretRef ingress))
               then Some CantBeSetOnCreation
               else if IsStringAttributeEmpty (ClusterRoutesHostname ingress) \<noteq>
                       IsStringAttributeEmpty (ClusterRoutesTlsSecretRef ingress)
               then Some MustBeSetTogether
               else None))"

subsection \<open>Updating the default ingress\<close>

text \<open>
  The part of \<open>UpdateIngress\<close> after the builder is made: the hostname and the TLS secret
  reference are set on the builder when the stored and the declared value differ, and
  the body is built. A nil builder makes the first method called on it panic; \<open>Build\<close>
  is always called, copies the fields that were set and returns no error for a builder
  without nested builders.
\<close>

definition finish_builder :: "DefaultIngress \<Rightarrow> DefaultIngress \<Rightarrow> Ingress option \<Rightarrow> error + Ingress" where
  "finish_builder state plan ingressBuilder =
     (case ingressBuilder of
        None \<Rightarrow> Inl NilPointerPanic
      | Some b \<Rightarrow>
          (let b1 = (if ClusterRoutesHostname state \<noteq> ClusterRoutesHostname plan
                     then b\<lparr>cluster_routes_hostname :=
                            Some (ValueString (ClusterRoutesHostname plan))\<rparr>
                     else b);
               b2 = (if ClusterRoutesTlsSecretRef state \<noteq> ClusterRoutesTlsSecretRef plan
                     then b1\<lparr>cluster_routes_tls_secret_ref :=
                            Some (ValueString (ClusterRoutesTlsSecretRef plan))\<rparr>
                     else b1)
           in Inr b2))"

text \<open>
  \<open>UpdateIngress\<close> returns the remote calls it issued and its error (\<open>None\<close> is nil).
  Dereferencing a nil plan in \<open>getDefaultIngressBuilder\<close> panics.
\<close>

definition UpdateIngress ::
  "DefaultIngress option \<Rightarrow> DefaultIngress option \<Rightarrow> string \<Rightarrow> string \<Rightarrow> ClustersClient \<Rightarrow>
   remote_call list \<times> error option" where
  "UpdateIngress state plan clusterId version clusterCollection =
     (if state \<noteq> plan then
        (case ValidateDefaultIngress plan version of
           Some err \<Rightarrow> ([], Some err)
         | None \<Rightarrow>
             (let (calls, state', err) =
                    (if (case state of None \<Rightarrow> True
                         | Some st \<Rightarrow> IsStringAttributeEmpty (Id' st))
                     then PopulateDefaultIngress (Some zero_DefaultIngress)
                            (Ingresses clusterCollection clusterId)
                     else ([], state, None))
              in if err \<noteq> None then (calls, err)
              else
                (case plan of
                   None \<Rightarrow> (calls, Some NilPointerPanic)
                 | Some pl \<Rightarrow>
                     (case state' of
                        None \<Rightarrow> (calls, Some NilPointerPanic)
                      | Some st \<Rightarrow>
                          (case finish_builder st pl (getDefaultIngressBuilder pl) of
                             Inl err \<Rightarrow> (calls, Some err)
                           | Inr ingress \<Rightarrow>
                               (calls @ [UpdateIngressCall clusterId (ValueString (Id' st)) ingress],
                                update_ingress clusterCollection clusterId
                                  (ValueString (Id' st)) ingress))))))
      else ([], None))"

section \<open>Group membership\<close>

text \<open>
  \<open>Update\<close> of the group membership resource only adds an error to the diagnostics of
  the response. \<open>AddError\<close> appends the diagnostic unless the same one is already there.
  The response holds the state the framework will store after the operation.
\<close>

record 's UpdateResponse =
  State :: 's
  Diagnostics :: "diagnostic list"

definition AddError :: "string \<Rightarrow> string \<Rightarrow> diagnostic list \<Rightarrow> diagnostic list" where
  "AddError summary detail diags =
     (if ErrorDiagnostic summary detail \<in> set diags then diags
      else diags @ [ErrorDiagnostic summary detail])"

definition cant_update_summary :: string where
  "cant_update_summary = ''Can't update group membership''"

definition cant_update_detail :: string where
  "cant_update_detail = ''Update is currently not supported.''"

definition Update :: "'r \<Rightarrow> 's UpdateResponse \<Rightarrow> remote_call list \<times> 's UpdateResponse" where
  "Update req resp =
     ([], resp\<lparr>Diagnostics := AddError cant_update_summary cant_update_detail (Diagnostics resp)\<rparr>)"

section \<open>Example values\<close>

text \<open>
  A stored state with a known identifier and no hostname, the same state declared with
  another wildcard policy (the API names the two policies \<open>WildcardsDisallowed\<close> and
  \<open>WildcardsAllowed\<close>), a declared state of a first creation that sets the hostname,
  a declared state with a hostname but no TLS secret reference, a declared state of a
  cluster whose default ingress was never read, and a stored state that holds route
  selectors and excluded namespaces.
\<close>

definition stored_example :: DefaultIngress where
  "stored_example =
     \<lparr>RouteSelectors = MapNull (Some StringType),
      ExcludedNamespaces = ListNull (Some StringType),
      WildcardPolicy = StringValue ''WildcardsDisallowed'',
      NamespaceOwnershipPolicy = StringValue ''Strict'',
      Id' = StringValue ''ingress-1'', ClusterRoutesHostname = StringNull,
      ClusterRoutesTlsSecretRef = StringNull\<rparr>"

definition declared_example :: DefaultIngress where
  "declared_example = stored_example\<lparr>WildcardPolicy := StringValue ''WildcardsAllowed''\<rparr>"

definition creation_example :: DefaultIngress where
  "creation_example =
     \<lparr>RouteSelectors = MapNull (Some StringType),
      ExcludedNamespaces = ListNull (Some StringType),
      WildcardPolicy = StringNull, NamespaceOwnershipPolicy = StringNull,
      Id' = StringNull, ClusterRoutesHostname = StringValue ''h.example.com'',
      ClusterRoutesTlsSecretRef = StringNull\<rparr>"

definition unpaired_example :: DefaultIngress where
  "unpaired_example = stored_example\<lparr>ClusterRoutesHostname := StringValue ''h.example.com''\<rparr>"

definition day2_example :: DefaultIngress where
  "day2_example =
     \<lparr>RouteSelectors = MapNull (Some StringType),
      ExcludedNamespaces = ListNull (Some StringType),
      WildcardPolicy = StringValue ''WildcardsAllowed'',
      NamespaceOwnershipPolicy = StringUnknown,
      Id' = StringUnknown, ClusterRoutesHostname = StringNull,
      ClusterRoutesTlsSecretRef = StringNull\<rparr>"

definition selectors_example :: DefaultIngress where
  "selectors_example =
     stored_example\<lparr>RouteSelectors := MapKnown StringType [''app'' \<mapsto> AttrString (StringValue ''web'')],
                    ExcludedNamespaces := ListKnown StringType [AttrString (StringValue ''kube-system'')]\<rparr>"

text \<open>
  A listed default ingress that carries only its identifier, one that carries explicitly
  empty route selectors, and a listed ingress that is not the default one.
\<close>

definition bare_default_ingress :: Ingress where
  "bare_default_ingress = NewIngress\<lparr>ingress_id := Some ''ingress-1'', ingress_default := Some True\<rparr>"

definition empty_selectors_ingress :: Ingress where
  "empty_selectors_ingress = bare_default_ingress\<lparr>route_selectors := Some Map.empty\<rparr>"

definition other_ingress :: Ingress where
  "other_ingress = NewIngress\<lparr>ingress_id := Some ''ingress-2'', ingress_default := Some False\<rparr>"

text \<open>A client whose list call returns the given items and whose update call succeeds,
  and a client whose every call fails.\<close>

definition accepting_client :: "Ingress list \<Rightarrow> ClustersClient" where
  "accepting_client items =
     \<lparr>list_ingresses = (\<lambda>c. Inr items), update_ingress = (\<lambda>c i body. None)\<rparr>"

definition failing_client :: ClustersClient where
  "failing_client =
     \<lparr>list_ingresses = (\<lambda>c. Inl (RemoteError ''unavailable'')),
      update_ingress = (\<lambda>c i body. Some (RemoteError ''unavailable''))\<rparr>"




section \<open>Properties\<close>

subsection \<open>Shared lemmas\<close>

lemmas version_defs =
  IsGreaterThanOrEqual_def lowestDefaultIngressVer_def parse_version_def parse_number_def
  digit_of_def

lemma version_4_13_below: "IsGreaterThanOrEqual ''4.13.0'' lowestDefaultIngressVer = Inr False"
  by (simp add: version_defs)

lemma version_4_14_supported: "IsGreaterThanOrEqual ''4.14.0'' lowestDefaultIngressVer = Inr True"
  by (simp add: version_defs)

lemma first_failure_known_strings:
  "first_failure (map (\<lambda>e. AttrString (StringValue e)) xs) = None"
  by (induction xs) simp_all

lemma map_filter_known_strings:
  "List.map_filter as_go_string (map (\<lambda>e. AttrString (StringValue e)) xs) = xs"
  by (induction xs) (simp_all add: List.map_filter_simps)

lemma bind_known_string:
  "Option.bind (map_option (\<lambda>v. AttrString (StringValue v)) x) as_go_string = x"
  by (cases x) simp_all

lemma map_failure_known_strings:
  "map_failure (\<lambda>k. map_option (\<lambda>v. AttrString (StringValue v)) (m k)) = None"
  by (auto simp: map_failure_def failure_precedence_def ran_def)

lemma map_failure_empty: "map_failure Map.empty = None"
  by (simp add: map_failure_def failure_precedence_def)

lemma StringArrayToList_known:
  "StringArrayToList (Some xs) =
     (ListKnown StringType (map (\<lambda>e. AttrString (StringValue e)) xs), None)"
  by (auto simp: StringArrayToList_def StringArrayToList_via_def list_elements_def ListValue_def)

lemma ConvertStringMapToMapType_known:
  "ConvertStringMapToMapType (Some m) =
     (MapKnown StringType (\<lambda>k. map_option (\<lambda>v. AttrString (StringValue v)) (m k)), None)"
  by (auto simp: ConvertStringMapToMapType_def ConvertStringMapToMapType_via_def
      string_elements_def MapValue_def ran_def)

lemma OptionalMap_null: "OptionalMap (MapNull t) = (None, None)"
  by (simp add: OptionalMap_def)

lemma OptionalList_null: "OptionalList (ListNull t) = (None, None)"
  by (simp add: OptionalList_def StringListToArray_def)

text \<open>
  The request body that \<open>UpdateIngress\<close> builds from the stored and the declared state,
  when the conversions of the declared collections succeed.
\<close>

lemma request_body_fields:
  assumes "OptionalMap (RouteSelectors pl) = (rs, None)"
    and "OptionalList (ExcludedNamespaces pl) = (en, None)"
  shows "finish_builder st pl (getDefaultIngressBuilder pl) = Inr
     \<lparr>ingress_id = None, ingress_default = None,
      route_selectors = Some (case rs of None \<Rightarrow> Map.empty | Some m \<Rightarrow> m),
      excluded_namespaces = Some (case en of None \<Rightarrow> [] | Some l \<Rightarrow> l),
      route_wildcard_policy =
        (if IsStringAttributeEmpty (WildcardPolicy pl) then None
         else Some (ValueString (WildcardPolicy pl))),
      route_namespace_ownership_policy =
        (if IsStringAttributeEmpty (NamespaceOwnershipPolicy pl) then None
         else Some (ValueString (NamespaceOwnershipPolicy pl))),
      cluster_routes_hostname =
        (if ClusterRoutesHostname st = ClusterRoutesHostname pl then None
         else Some (ValueString (ClusterRoutesHostname pl))),
      cluster_routes_tls_secret_ref =
        (if ClusterRoutesTlsSecretRef st = ClusterRoutesTlsSecretRef pl then None
         else Some (ValueString (ClusterRoutesTlsSecretRef pl)))\<rparr>"
  using assms by (simp add: finish_builder_def getDefaultIngressBuilder_def NewIngress_def)

subsection \<open>Idempotence of the update\<close>

text \<open>
  C1. When the stored state and the declared state of the default ingress are deeply
  equal (both nil, or both present with every field equal, a null value being different
  from an explicitly empty one), \<open>UpdateIngress\<close> issues no remote call, neither a list
  nor an update, and returns nil.
\<close>

theorem UpdateIngress_idempotent:
  "state = plan \<Longrightarrow>
   UpdateIngress state plan clusterId version clusterCollection = ([], None)"
  by (simp add: UpdateIngress_def)

theorem UpdateIngress_idempotent_witness:
  "UpdateIngress (Some selectors_example) (Some selectors_example) ''cluster-1'' ''4.13.0''
     failing_client = ([], None)"
  using UpdateIngress_idempotent [of "Some selectors_example" "Some selectors_example"
      "''cluster-1''" "''4.13.0''" failing_client]
  by simp

text \<open>A null collection and an explicitly empty one are different states.\<close>

lemma null_differs_from_empty:
  "MapNull t \<noteq> MapKnown StringType Map.empty \<and> ListNull t \<noteq> ListKnown StringType []"
  by simp

subsection \<open>The body of the update request\<close>

text \<open>
  When a declared collection does not convert, \<open>getDefaultIngressBuilder\<close> returns a nil
  builder, \<open>UpdateIngress\<close> does not check for it, and the operation ends in a nil pointer
  panic before any call is issued.
\<close>

lemma UpdateIngress_conversion_failure:
  assumes differs: "st \<noteq> pl"
    and valid: "ValidateDefaultIngress (Some pl) version = None"
    and known: "\<not> IsStringAttributeEmpty (Id' st)"
    and fails: "snd (OptionalMap (RouteSelectors pl)) \<noteq> None \<or>
                snd (OptionalList (ExcludedNamespaces pl)) \<noteq> None"
  shows "UpdateIngress (Some st) (Some pl) clusterId version clusterCollection =
           ([], Some NilPointerPanic)"
proof -
  have "getDefaultIngressBuilder pl = None"
    using fails by (auto simp add: getDefaultIngressBuilder_def split: prod.splits)
  then have "finish_builder st pl (getDefaultIngressBuilder pl) = Inl NilPointerPanic"
    by (simp add: finish_builder_def)
  then show ?thesis
    using differs valid known by (simp add: UpdateIngress_def)
qed

text \<open>
  C2, as amended. When the stored state has a known identifier, the declared state
  differs from it and passes validation, and the declared route selectors and excluded
  namespaces convert to native collections without error, \<open>UpdateIngress\<close> issues exactly
  one call, an update of the stored identifier, and its body is built from the declared
  state: route selectors and excluded namespaces are in the body (empty when the
  declared value is null or unknown), the wildcard policy and the namespace ownership
  policy are in the body whenever the declared value is not empty, whether or not it
  differs from the stored one, and the hostname and the TLS secret reference are in the
  body exactly when the declared value differs from the stored one.
\<close>

theorem UpdateIngress_request_body:
  fixes st pl :: DefaultIngress
  defines "body rs en \<equiv>
     \<lparr>ingress_id = None, ingress_default = None,
      route_selectors = Some (case rs of None \<Rightarrow> Map.empty | Some m \<Rightarrow> m),
      excluded_namespaces = Some (case en of None \<Rightarrow> [] | Some l \<Rightarrow> l),
      route_wildcard_policy =
        (if IsStringAttributeEmpty (WildcardPolicy pl) then None
         else Some (ValueString (WildcardPolicy pl))),
      route_namespace_ownership_policy =
        (if IsStringAttributeEmpty (NamespaceOwnershipPolicy pl) then None
         else Some (ValueString (NamespaceOwnershipPolicy pl))),
      cluster_routes_hostname =
        (if ClusterRoutesHostname st = ClusterRoutesHostname pl then None
         else Some (ValueString (ClusterRoutesHostname pl))),
      cluster_routes_tls_secret_ref =
        (if ClusterRoutesTlsSecretRef st = ClusterRoutesTlsSecretRef pl then None
         else Some (ValueString (ClusterRoutesTlsSecretRef pl)))\<rparr>"
  assumes differs: "st \<noteq> pl"
    and valid: "ValidateDefaultIngress (Some pl) version = None"
    and known: "\<not> IsStringAttributeEmpty (Id' st)"
    and selectors: "OptionalMap (RouteSelectors pl) = (rs, None)"
    and namespaces: "OptionalList (ExcludedNamespaces pl) = (en, None)"
  shows "UpdateIngress (Some st) (Some pl) clusterId version clusterCollection =
     ([UpdateIngressCall clusterId (ValueString (Id' st)) (body rs en)],
      update_ingress clusterCollection clusterId (ValueString (Id' st)) (body rs en))"
proof -
  have built: "finish_builder st pl (getDefaultIngressBuilder pl) = Inr (body rs en)"
    unfolding body_def by (rule request_body_fields [OF selectors namespaces])
  show ?thesis
    using differs valid known by (simp add: UpdateIngress_def built)
qed

theorem UpdateIngress_request_body_witness:
  "UpdateIngress (Some stored_example) (Some declared_example) ''cluster-1'' ''4.14.0''
     (accepting_client []) =
     ([UpdateIngressCall ''cluster-1'' ''ingress-1''
         \<lparr>ingress_id = None, ingress_default = None, route_selectors = Some Map.empty,
          excluded_namespaces = Some [], route_wildcard_policy = Some ''WildcardsAllowed'',
          route_namespace_ownership_policy = Some ''Strict'',
          cluster_routes_hostname = None, cluster_routes_tls_secret_ref = None\<rparr>],
      None)"
proof -
  have differs: "stored_example \<noteq> declared_example"
    by (simp add: stored_example_def declared_example_def accepting_client_def)
  have valid: "ValidateDefaultIngress (Some declared_example) ''4.14.0'' = None"
    by (simp add: ValidateDefaultIngress_def version_4_14_supported stored_example_def
        declared_example_def)
  have known: "\<not> IsStringAttributeEmpty (Id' stored_example)"
    by (simp add: stored_example_def declared_example_def accepting_client_def)
  have selectors: "OptionalMap (RouteSelectors declared_example) = (None, None)"
    by (simp add: stored_example_def declared_example_def OptionalMap_null)
  have namespaces: "OptionalList (ExcludedNamespaces declared_example) = (None, None)"
    by (simp add: stored_example_def declared_example_def OptionalList_null)
  show ?thesis
    using UpdateIngress_request_body [OF differs valid known selectors namespaces,
        of "''cluster-1''" "accepting_client []"]
    by (simp add: stored_example_def declared_example_def accepting_client_def)
qed

text \<open>
  The claim as first stated fails on its own example: with the stored wildcard policy
  disallowing and the declared one allowing wildcards, no hostname on either side and
  every other field equal, the body is not the wildcard policy alone. It also holds the
  empty route selectors, the empty excluded namespaces and the namespace ownership
  policy, which did not change.
\<close>

theorem UpdateIngress_request_body_counterexample:
  "NamespaceOwnershipPolicy stored_example = NamespaceOwnershipPolicy declared_example \<and>
   UpdateIngress (Some stored_example) (Some declared_example) ''cluster-1'' ''4.14.0''
     (accepting_client []) \<noteq>
     ([UpdateIngressCall ''cluster-1'' ''ingress-1''
         (NewIngress\<lparr>route_wildcard_policy := Some ''WildcardsAllowed''\<rparr>)], None) \<and>
   UpdateIngress (Some stored_example) (Some declared_example) ''cluster-1'' ''4.14.0''
     (accepting_client []) =
     ([UpdateIngressCall ''cluster-1'' ''ingress-1''
         (NewIngress\<lparr>route_selectors := Some Map.empty, excluded_namespaces := Some [],
            route_wildcard_policy := Some ''WildcardsAllowed'',
            route_namespace_ownership_policy := Some ''Strict''\<rparr>)], None)"
  by (simp add: UpdateIngress_def ValidateDefaultIngress_def version_4_14_supported
      stored_example_def
      declared_example_def accepting_client_def finish_builder_def getDefaultIngressBuilder_def NewIngress_def
      OptionalMap_null OptionalList_null)

subsection \<open>Validation of the declared state\<close>

text \<open>
  C3, as amended. When the parent version is at least the minimum supported version,
  a declared state whose identifier is empty and whose hostname or TLS secret reference
  is set fails validation with the error "can't be set on cluster creation"; and when
  that declared state differs from the stored state, \<open>UpdateIngress\<close> returns this
  error without having issued any remote call.
\<close>

theorem ValidateDefaultIngress_creation_guard:
  assumes supported: "IsGreaterThanOrEqual version lowestDefaultIngressVer = Inr True"
    and no_id: "IsStringAttributeEmpty (Id' intent)"
    and routes: "\<not> IsStringAttributeEmpty (ClusterRoutesHostname intent) \<or>
                 \<not> IsStringAttributeEmpty (ClusterRoutesTlsSecretRef intent)"
  shows "ValidateDefaultIngress (Some intent) version = Some CantBeSetOnCreation \<and>
         (state \<noteq> Some intent \<longrightarrow>
            UpdateIngress state (Some intent) clusterId version clusterCollection =
              ([], Some CantBeSetOnCreation))"
  using assms by (auto simp add: ValidateDefaultIngress_def UpdateIngress_def)

theorem ValidateDefaultIngress_creation_guard_witness:
  "ValidateDefaultIngress (Some creation_example) ''4.14.0'' = Some CantBeSetOnCreation \<and>
   UpdateIngress None (Some creation_example) ''cluster-1'' ''4.14.0'' (accepting_client []) =
     ([], Some CantBeSetOnCreation)"
proof -
  have no_id: "IsStringAttributeEmpty (Id' creation_example)"
    by (simp add: creation_example_def)
  have routes: "\<not> IsStringAttributeEmpty (ClusterRoutesHostname creation_example) \<or>
                \<not> IsStringAttributeEmpty (ClusterRoutesTlsSecretRef creation_example)"
    by (simp add: creation_example_def)
  show ?thesis
    using ValidateDefaultIngress_creation_guard [OF version_4_14_supported no_id routes,
        of None "''cluster-1''" "accepting_client []"]
    by simp
qed

text \<open>
  The claim as first stated fails in two ways. A declared state with an empty
  identifier and a hostname, validated against a parent version below the minimum, gets
  the version error and not the creation error; and when the stored state is deeply
  equal to that declared state, \<open>UpdateIngress\<close> does not validate at all and returns nil.
\<close>

theorem ValidateDefaultIngress_creation_guard_counterexample:
  "IsStringAttributeEmpty (Id' creation_example) \<and>
   \<not> IsStringAttributeEmpty (ClusterRoutesHostname creation_example) \<and>
   ValidateDefaultIngress (Some creation_example) ''4.13.0'' =
     Some (UnsupportedVersionError ''4.13.0'' ''4.14.0-0'') \<and>
   ValidateDefaultIngress (Some creation_example) ''4.13.0'' \<noteq> Some CantBeSetOnCreation \<and>
   UpdateIngress (Some creation_example) (Some creation_example) ''cluster-1'' ''4.14.0''
     (accepting_client []) = ([], None)"
  using version_4_13_below
  by (simp add: ValidateDefaultIngress_def UpdateIngress_def creation_example_def
      lowestDefaultIngressVer_def)

text \<open>
  C4. When the parent version is below the minimum supported version \<open>4.14.0-0\<close>, a
  declared state that also breaks the rule that hostname and TLS secret reference are
  set together fails validation with the version error: the version rule is checked
  first and the first failure is the one returned.
\<close>

theorem ValidateDefaultIngress_version_first:
  assumes below: "IsGreaterThanOrEqual version lowestDefaultIngressVer = Inr False"
    and unpaired: "IsStringAttributeEmpty (ClusterRoutesHostname intent) \<noteq>
                   IsStringAttributeEmpty (ClusterRoutesTlsSecretRef intent)"
  shows "ValidateDefaultIngress (Some intent) version =
           Some (UnsupportedVersionError version lowestDefaultIngressVer) \<and>
         ValidateDefaultIngress (Some intent) version \<noteq> Some MustBeSetTogether \<and>
         ValidateDefaultIngress (Some intent) version \<noteq> Some CantBeSetOnCreation"
  using below by (simp add: ValidateDefaultIngress_def)

theorem ValidateDefaultIngress_version_first_witness:
  "ValidateDefaultIngress (Some unpaired_example) ''4.13.0'' =
     Some (UnsupportedVersionError ''4.13.0'' lowestDefaultIngressVer) \<and>
   ValidateDefaultIngress (Some unpaired_example) ''4.13.0'' \<noteq> Some MustBeSetTogether"
proof -
  have unpaired: "IsStringAttributeEmpty (ClusterRoutesHostname unpaired_example) \<noteq>
                  IsStringAttributeEmpty (ClusterRoutesTlsSecretRef unpaired_example)"
    by (simp add: unpaired_example_def stored_example_def)
  show ?thesis
    using ValidateDefaultIngress_version_first [OF version_4_13_below unpaired]
    by simp
qed

text \<open>On a supported version the same declared state fails the pairing rule.\<close>

lemma unpaired_example_on_supported_version:
  "ValidateDefaultIngress (Some unpaired_example) ''4.14.0'' = Some MustBeSetTogether"
  by (simp add: ValidateDefaultIngress_def version_4_14_supported unpaired_example_def
      stored_example_def)

subsection \<open>The identifier that the update targets\<close>

text \<open>
  When no listed ingress is marked default the loop leaves the state as it is; otherwise
  the state gets the identifier of the first entry marked default.
\<close>

lemma populate_loop_no_default:
  "find Default items = None \<Longrightarrow> populate_loop st items = (Some st, None)"
  by (induction items) (simp_all split: if_splits)

lemma populate_from_ingress_result:
  "\<exists>st'. populate_from_ingress st ingress = (Some st', None) \<and>
     Id' st' = StringValue (ID ingress) \<and>
     WildcardPolicy st' =
       (case route_wildcard_policy ingress of Some wp \<Rightarrow> StringValue wp | None \<Rightarrow> StringNull) \<and>
     NamespaceOwnershipPolicy st' =
       (case route_namespace_ownership_policy ingress of
          Some p \<Rightarrow> StringValue p | None \<Rightarrow> StringNull) \<and>
     ClusterRoutesHostname st' =
       (case cluster_routes_hostname ingress of Some h \<Rightarrow> StringValue h | None \<Rightarrow> StringNull) \<and>
     ClusterRoutesTlsSecretRef st' =
       (case cluster_routes_tls_secret_ref ingress of
          Some t \<Rightarrow> StringValue t | None \<Rightarrow> StringNull) \<and>
     RouteSelectors st' =
       (case route_selectors ingress of
          Some m \<Rightarrow> MapKnown StringType (\<lambda>k. map_option (\<lambda>v. AttrString (StringValue v)) (m k))
        | None \<Rightarrow> RouteSelectors st) \<and>
     ExcludedNamespaces st' =
       (case excluded_namespaces ingress of
          Some l \<Rightarrow> ListKnown StringType (map (\<lambda>e. AttrString (StringValue e)) l)
        | None \<Rightarrow> ExcludedNamespaces st)"
  by (simp add: populate_from_ingress_def ConvertStringMapToMapType_known
      StringArrayToList_known split: option.splits)

lemma populate_loop_default:
  "find Default items = Some ingress \<Longrightarrow>
   populate_loop st items = populate_from_ingress st ingress"
  by (induction items) (simp_all split: if_splits)

text \<open>
  With a stored state that is nil or has an empty identifier, a declared state that
  differs from it and passes validation, and a list that holds an entry marked default,
  \<open>UpdateIngress\<close> first lists the ingresses of the cluster and then updates the ingress
  whose identifier the first default entry carries.
\<close>

lemma UpdateIngress_reads_identifier:
  assumes unknown_id: "state = None \<or> (\<exists>st. state = Some st \<and> IsStringAttributeEmpty (Id' st))"
    and differs: "state \<noteq> Some pl"
    and valid: "ValidateDefaultIngress (Some pl) version = None"
    and listed: "list_ingresses clusterCollection clusterId = Inr items"
    and found: "find Default items = Some ingress"
    and selectors: "snd (OptionalMap (RouteSelectors pl)) = None"
    and namespaces: "snd (OptionalList (ExcludedNamespaces pl)) = None"
  shows "\<exists>body. UpdateIngress state (Some pl) clusterId version clusterCollection =
     ([ListIngresses clusterId, UpdateIngressCall clusterId (ID ingress) body],
      update_ingress clusterCollection clusterId (ID ingress) body)"
proof -
  obtain st' where st': "populate_from_ingress zero_DefaultIngress ingress = (Some st', None)"
    and id: "Id' st' = StringValue (ID ingress)"
    using populate_from_ingress_result [of zero_DefaultIngress ingress] by blast
  have populated: "PopulateDefaultIngress (Some zero_DefaultIngress)
      (Ingresses clusterCollection clusterId) = ([ListIngresses clusterId], Some st', None)"
    using listed found st'
    by (simp add: PopulateDefaultIngress_def Ingresses_def populate_loop_default)
  obtain rs en where rs: "OptionalMap (RouteSelectors pl) = (rs, None)"
    and en: "OptionalList (ExcludedNamespaces pl) = (en, None)"
    using selectors namespaces by (metis prod.collapse)
  have needs: "(case state of None \<Rightarrow> True | Some st \<Rightarrow> IsStringAttributeEmpty (Id' st))"
    using unknown_id by auto
  show ?thesis
    using differs valid needs
    by (simp add: UpdateIngress_def populated id request_body_fields [OF rs en])
qed

text \<open>
  C5. The update is meant to read the identifier of the default ingress from the list
  before it updates. When the list holds no entry marked default, the identifier stays
  empty and the update call that follows targets the empty identifier.
\<close>

theorem UpdateIngress_targets_empty_identifier:
  "UpdateIngress None (Some day2_example) ''cluster-1'' ''4.14.0''
     (accepting_client [other_ingress]) =
     ([ListIngresses ''cluster-1'',
       UpdateIngressCall ''cluster-1'' []
         (NewIngress\<lparr>route_selectors := Some Map.empty, excluded_namespaces := Some [],
            route_wildcard_policy := Some ''WildcardsAllowed''\<rparr>)],
      None)"
  by (simp add: UpdateIngress_def ValidateDefaultIngress_def version_4_14_supported
      day2_example_def
      other_ingress_def accepting_client_def finish_builder_def getDefaultIngressBuilder_def NewIngress_def
      OptionalMap_null OptionalList_null PopulateDefaultIngress_def Ingresses_def
      zero_DefaultIngress_def Default_def)

subsection \<open>Reading the default ingress into the stored state\<close>

text \<open>
  With the default entry first in the list, a stored state is populated from that entry:
  the call issued is the list call, the identifier and the four string fields are those
  of the entry, null where the entry has none, and explicitly empty route selectors
  become a known empty map.
\<close>

lemma PopulateDefaultIngress_from_default:
  assumes listed: "list_ingresses (clusters client) (cluster client) = Inr items"
    and found: "find Default items = Some ingress"
  shows "\<exists>st'. PopulateDefaultIngress (Some st) client =
           ([ListIngresses (cluster client)], Some st', None) \<and>
         Id' st' = StringValue (ID ingress) \<and>
         (route_wildcard_policy ingress = None \<longrightarrow> WildcardPolicy st' = StringNull) \<and>
         (route_namespace_ownership_policy ingress = None \<longrightarrow>
            NamespaceOwnershipPolicy st' = StringNull) \<and>
         (cluster_routes_hostname ingress = None \<longrightarrow> ClusterRoutesHostname st' = StringNull) \<and>
         (cluster_routes_tls_secret_ref ingress = None \<longrightarrow>
            ClusterRoutesTlsSecretRef st' = StringNull) \<and>
         (route_selectors ingress = Some Map.empty \<longrightarrow>
            RouteSelectors st' = MapKnown StringType Map.empty) \<and>
         (route_selectors ingress = None \<longrightarrow> RouteSelectors st' = RouteSelectors st) \<and>
         (excluded_namespaces ingress = None \<longrightarrow>
            ExcludedNamespaces st' = ExcludedNamespaces st)"
proof -
  obtain st' where st': "populate_from_ingress st ingress = (Some st', None)"
    and fields: "Id' st' = StringValue (ID ingress)"
      "WildcardPolicy st' =
        (case route_wildcard_policy ingress of Some wp \<Rightarrow> StringValue wp | None \<Rightarrow> StringNull)"
      "NamespaceOwnershipPolicy st' =
        (case route_namespace_ownership_policy ingress of
           Some p \<Rightarrow> StringValue p | None \<Rightarrow> StringNull)"
      "ClusterRoutesHostname st' =
        (case cluster_routes_hostname ingress of Some h \<Rightarrow> StringValue h | None \<Rightarrow> StringNull)"
      "ClusterRoutesTlsSecretRef st' =
        (case cluster_routes_tls_secret_ref ingress of
           Some t \<Rightarrow> StringValue t | None \<Rightarrow> StringNull)"
      "RouteSelectors st' =
        (case route_selectors ingress of
           Some m \<Rightarrow> MapKnown StringType (\<lambda>k. map_option (\<lambda>v. AttrString (StringValue v)) (m k))
         | None \<Rightarrow> RouteSelectors st)"
      "ExcludedNamespaces st' =
        (case excluded_namespaces ingress of
           Some l \<Rightarrow> ListKnown StringType (map (\<lambda>e. AttrString (StringValue e)) l)
         | None \<Rightarrow> ExcludedNamespaces st)"
    using populate_from_ingress_result [of st ingress] by blast
  have "PopulateDefaultIngress (Some st) client =
      ([ListIngresses (cluster client)], Some st', None)"
    using listed found st' by (simp add: PopulateDefaultIngress_def populate_loop_default)
  then show ?thesis
    using fields by auto
qed

lemma PopulateDefaultIngress_empty_selectors:
  "PopulateDefaultIngress (Some zero_DefaultIngress)
     (Ingresses (accepting_client [other_ingress, empty_selectors_ingress]) ''cluster-1'') =
     ([ListIngresses ''cluster-1''],
      Some (zero_DefaultIngress\<lparr>Id' := StringValue ''ingress-1'',
              RouteSelectors := MapKnown StringType Map.empty\<rparr>),
      None)"
  by (simp add: PopulateDefaultIngress_def Ingresses_def populate_from_ingress_def
      zero_DefaultIngress_def empty_selectors_ingress_def bare_default_ingress_def
      other_ingress_def accepting_client_def NewIngress_def Default_def ID_def
      ConvertStringMapToMapType_known)

text \<open>
  C6. A field that the remote default ingress does not carry is meant to become null in
  the stored state. The four string fields do; route selectors and excluded namespaces
  do not: a stored state that holds them keeps them when the remote entry has neither.
\<close>

theorem PopulateDefaultIngress_keeps_absent_collections:
  "route_selectors bare_default_ingress = None \<and>
   excluded_namespaces bare_default_ingress = None \<and>
   PopulateDefaultIngress (Some selectors_example)
     (Ingresses (accepting_client [bare_default_ingress]) ''cluster-1'') =
     ([ListIngresses ''cluster-1''],
      Some (selectors_example\<lparr>WildcardPolicy := StringNull,
              NamespaceOwnershipPolicy := StringNull\<rparr>),
      None) \<and>
   RouteSelectors selectors_example =
     MapKnown StringType [''app'' \<mapsto> AttrString (StringValue ''web'')] \<and>
   ExcludedNamespaces selectors_example =
     ListKnown StringType [AttrString (StringValue ''kube-system'')]"
  by (simp add: PopulateDefaultIngress_def Ingresses_def populate_from_ingress_def
      selectors_example_def stored_example_def
      bare_default_ingress_def accepting_client_def NewIngress_def Default_def ID_def)

subsection \<open>Null, unknown and empty collections\<close>

text \<open>
  C7. A map or list value that is null or unknown converts to the nil native collection
  with no error, never to an empty collection; a known map or list value with no element
  converts to an empty native collection that is not nil, with no error.
\<close>

theorem null_and_empty_conversions:
  "OptionalMap (MapNull t) = (None, None) \<and>
   OptionalMap (MapUnknown t) = (None, None) \<and>
   StringListToArray (ListNull t) = (None, None) \<and>
   StringListToArray (ListUnknown t) = (None, None) \<and>
   OptionalMap (MapKnown elementType Map.empty) = (Some Map.empty, None) \<and>
   StringListToArray (ListKnown elementType []) = (Some [], None)"
  by (simp add: OptionalMap_def StringListToArray_def HasError_def Errors_def
      map_failure_empty List.map_filter_simps)

subsection \<open>Round trips\<close>

text \<open>
  C8. A native string list that is not nil, converted to a list value by
  \<open>StringArrayToList\<close> and back by \<open>StringListToArray\<close>, is the same list, element for
  element and in the same order; a native string map that is not nil, converted by
  \<open>ConvertStringMapToMapType\<close> and back by \<open>OptionalMap\<close>, is the same map. Neither
  direction reports an error.
\<close>

theorem native_round_trip:
  "snd (StringArrayToList (Some xs)) = None \<and>
   StringListToArray (fst (StringArrayToList (Some xs))) = (Some xs, None) \<and>
   snd (ConvertStringMapToMapType (Some m)) = None \<and>
   OptionalMap (fst (ConvertStringMapToMapType (Some m))) = (Some m, None)"
  by (simp add: StringArrayToList_known ConvertStringMapToMapType_known OptionalMap_def
      StringListToArray_def HasError_def Errors_def first_failure_known_strings
      map_filter_known_strings map_failure_known_strings bind_known_string)

subsection \<open>Conversion failures\<close>

text \<open>
  When the conversion of a known map or list value to a native collection fails, that
  is when the element conversion reports an error, \<open>OptionalMap\<close> and
  \<open>StringListToArray\<close> return the nil collection and an error that carries the detail of
  the first error diagnostic; the list of errors they index is not empty.
\<close>

lemma element_conversion_failure_reported:
  "(\<not> Map_IsNull tfMap \<and> \<not> Map_IsUnknown tfMap \<and> HasError (fst (Map_ElementsAs tfMap)) \<longrightarrow>
      Errors (fst (Map_ElementsAs tfMap)) \<noteq> [] \<and>
      OptionalMap tfMap =
        (None, Some (ConversionError (Detail (hd (Errors (fst (Map_ElementsAs tfMap)))))))) \<and>
   (\<not> List_IsNull tfList \<and> \<not> List_IsUnknown tfList \<and> HasError (fst (List_ElementsAs tfList)) \<longrightarrow>
      Errors (fst (List_ElementsAs tfList)) \<noteq> [] \<and>
      StringListToArray tfList =
        (None, Some (ConversionError (Detail (hd (Errors (fst (List_ElementsAs tfList))))))))"
proof -
  have "OptionalMap tfMap =
      (None, Some (ConversionError (Detail (hd (Errors (fst (Map_ElementsAs tfMap)))))))"
    if "\<not> Map_IsNull tfMap" "\<not> Map_IsUnknown tfMap" "HasError (fst (Map_ElementsAs tfMap))"
    using that by (auto simp add: OptionalMap_def split: prod.splits)
  moreover have "StringListToArray tfList =
      (None, Some (ConversionError (Detail (hd (Errors (fst (List_ElementsAs tfList)))))))"
    if "\<not> List_IsNull tfList" "\<not> List_IsUnknown tfList" "HasError (fst (List_ElementsAs tfList))"
    using that by (auto simp add: StringListToArray_def split: prod.splits)
  ultimately show ?thesis
    by (simp add: HasError_def)
qed

text \<open>
  A map with a number element, a list whose second element is null and a list whose
  first element is unknown: each gives the error with the detail of its cause.
\<close>

lemma element_conversion_failure_examples:
  "OptionalMap (MapKnown Int64Type [''replicas'' \<mapsto> AttrInt64 3]) =
     (None, Some (ConversionError (conversion_detail IncompatibleType))) \<and>
   StringListToArray (ListKnown StringType [AttrString (StringValue ''a''), AttrString StringNull]) =
     (None, Some (ConversionError (conversion_detail NullValue))) \<and>
   StringListToArray (ListKnown StringType [AttrString StringUnknown, AttrString StringNull]) =
     (None, Some (ConversionError (conversion_detail UnknownValue)))"
  by (simp add: OptionalMap_def StringListToArray_def HasError_def Errors_def
      value_conversion_error_def map_failure_def failure_precedence_def)

text \<open>
  On the elements that \<open>ConvertStringMapToMapType\<close> and \<open>StringArrayToList\<close> build,
  which are all known strings, the framework constructors report nothing.
\<close>

lemma constructors_accept_strings:
  "snd (MapValue StringType (string_elements stringMap)) = [] \<and>
   snd (ListValue StringType (list_elements stringList)) = []"
  by (auto simp: MapValue_def ListValue_def string_elements_def list_elements_def ran_def
      split: option.splits)

text \<open>
  Whatever the framework constructor reports, \<open>ConvertStringMapToMapType\<close> and
  \<open>StringArrayToList\<close> return the value it built and a nil error.
\<close>

lemma via_constructor_error_dropped:
  "ConvertStringMapToMapType_via mapValueFn stringMap =
     (fst (mapValueFn StringType (string_elements stringMap)), None) \<and>
   StringArrayToList_via listValueFn stringList =
     (fst (listValueFn StringType (list_elements stringList)), None)"
  by (simp add: ConvertStringMapToMapType_via_def StringArrayToList_via_def
      split: prod.splits)


subsection \<open>Update of a group membership\<close>

lemma error_member_HasError:
  "d \<in> set ds \<Longrightarrow> is_error_diagnostic d \<Longrightarrow> HasError ds"
  by (auto simp: HasError_def Errors_def filter_empty_conv)

text \<open>
  C10. For every update request, \<open>Update\<close> of the group membership resource reports the
  error "Can't update group membership" with the detail "Update is currently not
  supported.", issues no remote call and leaves the state of the response as it was.
\<close>

theorem Update_not_supported:
  "fst (Update req resp) = [] \<and>
   State (snd (Update req resp)) = State resp \<and>
   ErrorDiagnostic ''Can't update group membership'' ''Update is currently not supported.''
     \<in> set (Diagnostics (snd (Update req resp))) \<and>
   HasError (Diagnostics (snd (Update req resp)))"
proof -
  let ?d = "ErrorDiagnostic ''Can't update group membership''
      ''Update is currently not supported.''"
  have reported: "?d \<in> set (Diagnostics (snd (Update req resp)))"
    by (simp add: Update_def AddError_def cant_update_summary_def cant_update_detail_def)
  then have "HasError (Diagnostics (snd (Update req resp)))"
    by (rule error_member_HasError) simp
  with reported show ?thesis
    by (simp add: Update_def)
qed

end
